theory Spec2Isabelle
  imports Complex_Main
begin

section \<open>JavaScript values\<close>

text \<open>
  A JavaScript \<open>number\<close> is an IEEE 754 double. A finite double is a rational number, and
  \<open>Finite r\<close> is the number with the value \<open>r\<close>; \<open>Finite 0\<close> is \<open>+0\<close> and \<open>NegZero\<close> is
  \<open>-0\<close>. Not every rational is a double, so the type has more values than the code's;
  what is proved of all of them holds of the doubles.
\<close>

datatype jsnum = Finite rat | NegZero | PosInfinity | NegInfinity | NaN

text \<open>
  Rounding a rational to the nearest double, ties to the even significand. A double has
  a significand of 53 bits and an exponent from \<open>-1022\<close> to \<open>1023\<close>: in the binade of
  \<open>2 ^ e\<close> the doubles are the multiples of \<open>2 ^ (e - 52)\<close>, below \<open>2 ^ -1022\<close> they are the
  multiples of \<open>2 ^ -1074\<close>, and a magnitude that rounds to \<open>2 ^ 1024\<close> or more overflows.
\<close>

function ilog2 :: "int \<Rightarrow> int" where
  "ilog2 n = (if n < 2 then 0 else 1 + ilog2 (n div 2))"
  by pat_completeness auto
termination
  by (relation "measure nat") auto

declare ilog2.simps [simp del]

text \<open>The integer part of the binary logarithm of a positive rational.\<close>

definition floor_log2 :: "rat \<Rightarrow> int" where
  "floor_log2 x =
     (if 1 \<le> x then ilog2 \<lfloor>x\<rfloor> else - (1 + ilog2 (\<lceil>1 / x\<rceil> - 1)))"

definition pow2 :: "int \<Rightarrow> rat" where
  "pow2 e = (if 0 \<le> e then 2 ^ nat e else 1 / 2 ^ nat (- e))"

definition round_half_even :: "rat \<Rightarrow> int" where
  "round_half_even t =
     (let f = \<lfloor>t\<rfloor>; d = t - of_int f
      in if d < 1 / 2 then f
         else if 1 / 2 < d then f + 1
         else if even f then f else f + 1)"

text \<open>The double nearest to a magnitude \<open>x\<close>, or \<open>None\<close> when it overflows.\<close>

definition round_magnitude :: "rat \<Rightarrow> rat option" where
  "round_magnitude x =
     (let e = max (floor_log2 x) (- 1022);
          ulp = pow2 (e - 52);
          y = of_int (round_half_even (x / ulp)) * ulp
      in if y < pow2 1024 then Some y else None)"

definition to_double :: "rat \<Rightarrow> jsnum" where
  "to_double q =
     (case round_magnitude \<bar>q\<bar> of
        None \<Rightarrow> if q < 0 then NegInfinity else PosInfinity
      | Some y \<Rightarrow>
          if y = 0 then (if q < 0 then NegZero else Finite 0)
          else Finite (if q < 0 then - y else y))"

text \<open>
  The operator \<open>/\<close> on numbers: the exact quotient rounded to a double, with the sign of
  a zero or infinite result taken from the signs of the operands; it never raises.
\<close>

fun js_div :: "jsnum \<Rightarrow> jsnum \<Rightarrow> jsnum" where
  "js_div NaN _ = NaN"
| "js_div _ NaN = NaN"
| "js_div (Finite a) (Finite b) =
     (if b = 0 then (if a = 0 then NaN else if 0 < a then PosInfinity else NegInfinity)
      else if a = 0 then (if b < 0 then NegZero else Finite 0)
      else to_double (a / b))"
| "js_div (Finite a) NegZero =
     (if a = 0 then NaN else if 0 < a then NegInfinity else PosInfinity)"
| "js_div NegZero (Finite b) = (if b = 0 then NaN else if b < 0 then Finite 0 else NegZero)"
| "js_div NegZero NegZero = NaN"
| "js_div (Finite a) PosInfinity = (if a < 0 then NegZero else Finite 0)"
| "js_div (Finite a) NegInfinity = (if a < 0 then Finite 0 else NegZero)"
| "js_div NegZero PosInfinity = NegZero"
| "js_div NegZero NegInfinity = Finite 0"
| "js_div PosInfinity (Finite b) = (if b < 0 then NegInfinity else PosInfinity)"
| "js_div PosInfinity NegZero = NegInfinity"
| "js_div NegInfinity (Finite b) = (if b < 0 then PosInfinity else NegInfinity)"
| "js_div NegInfinity NegZero = PosInfinity"
| "js_div PosInfinity _ = NaN"
| "js_div NegInfinity _ = NaN"

text \<open>Truthiness (\<open>ToBoolean\<close>) of a number and of a string.\<close>

fun truthy_num :: "jsnum \<Rightarrow> bool" where
  "truthy_num (Finite r) = (r \<noteq> 0)"
| "truthy_num NegZero = False"
| "truthy_num PosInfinity = True"
| "truthy_num NegInfinity = True"
| "truthy_num NaN = False"

definition truthy_str :: "string \<Rightarrow> bool" where
  "truthy_str s = (s \<noteq> [])"

text \<open>
  An optional field \<open>f?: T\<close> of an object is \<open>None\<close> when it is \<open>undefined\<close>.
  \<open>a ? x : y\<close> on such a field tests that it is defined and truthy.
\<close>

fun truthy_opt_str :: "string option \<Rightarrow> bool" where
  "truthy_opt_str None = False"
| "truthy_opt_str (Some s) = truthy_str s"

text \<open>The values that occur as attributes and style entries of the output tree.\<close>

datatype jsval = Undefined | Null | Str string | Num jsnum

fun of_opt_str :: "string option \<Rightarrow> jsval" where
  "of_opt_str None = Undefined"
| "of_opt_str (Some s) = Str s"

text \<open>
  A plain object is a map from property names to values. In an object literal a later
  property replaces an earlier one of the same name, and a spread \<open>...o\<close> copies the
  properties of \<open>o\<close> at its place in the literal: \<open>{a: x, ...o, b: y}\<close> is
  \<open>[a \<mapsto> x] ++ o ++ [b \<mapsto> y]\<close>.
\<close>

type_synonym obj = "string \<rightharpoonup> jsval"

section \<open>The platform\<close>

text \<open>
  What the component reads from its runtime: the global \<open>window\<close> (absent when
  rendering on a server), whether \<open>"IntersectionObserver" in window\<close>, the two base64
  encoders that \<open>universalBtoa\<close> chooses from, and the conversion of a number to a string
  that a template literal applies.
\<close>

record window =
  hasIntersectionObserver :: bool
  btoa :: "string \<Rightarrow> string"

record platform =
  window :: "window option"
  bufferBase64 :: "string \<Rightarrow> string"
  numberToString :: "jsnum \<Rightarrow> string"

datatype error = ReferenceError | TypeError

definition isSsr :: "platform \<Rightarrow> bool" where
  "isSsr rt = (window rt = None)"

definition universalBtoa :: "platform \<Rightarrow> string \<Rightarrow> string" where
  "universalBtoa rt str =
     (if isSsr rt then bufferBase64 rt str else btoa (the (window rt)) str)"

definition absolutePositioning :: obj where
  "absolutePositioning =
     [''position'' \<mapsto> Str ''absolute'',
      ''left'' \<mapsto> Str ''0px'',
      ''top'' \<mapsto> Str ''0px'',
      ''width'' \<mapsto> Str ''100%'',
      ''height'' \<mapsto> Str ''100%'']"

section \<open>Props and state of the component\<close>

record ImageData =
  aspectRatio :: jsnum
  width :: jsnum
  base64 :: "string option"
  height :: "jsnum option"
  sizes :: "string option"
  src :: string
  srcSet :: "string option"
  webpSrcSet :: "string option"
  bgColor :: "string option"
  alt :: string
  title :: string

record props =
  data :: ImageData
  pictureClass :: "string option"
  fadeInDuration :: jsnum
  intersectionTreshold :: jsnum
  intersectionMargin :: string
  lazyLoad :: bool
  pictureStyle :: obj
  rootStyle :: obj
  explicitWidth :: bool

text \<open>The props a caller gets who passes \<open>data\<close> only.\<close>

definition default_props :: "ImageData \<Rightarrow> props" where
  "default_props d =
     \<lparr>data = d, pictureClass = None, fadeInDuration = Finite 500,
      intersectionTreshold = Finite 0, intersectionMargin = ''0px 0px 0px 0px'',
      lazyLoad = True, pictureStyle = Map.empty, rootStyle = Map.empty,
      explicitWidth = False\<rparr>"

text \<open>
  The DOM element of the root \<open>div\<close>, and an \<open>IntersectionObserver\<close>: its options, the
  elements it observes, and how often \<open>disconnect\<close> has been called on it.
  \<open>observe\<close> and \<open>disconnect\<close> are the platform's: \<open>disconnect\<close> stops observing every
  target and does not raise, whatever the observer's state.
\<close>

datatype element = RootElement

record intersection_observer =
  threshold :: jsnum
  rootMargin :: string
  targets :: "element list"
  disconnectCalls :: nat

definition observe :: "element \<Rightarrow> intersection_observer \<Rightarrow> intersection_observer" where
  "observe e ob = ob\<lparr>targets := List.insert e (targets ob)\<rparr>"

definition disconnect :: "intersection_observer \<Rightarrow> intersection_observer" where
  "disconnect ob = ob\<lparr>targets := [], disconnectCalls := Suc (disconnectCalls ob)\<rparr>"

record intersection_entry =
  isIntersecting :: bool

record state =
  observer :: "intersection_observer option"
  el :: "element option"
  inView :: bool
  loaded :: bool

text \<open>The refs as \<open>setup\<close> creates them.\<close>

definition setup_refs :: state where
  "setup_refs = \<lparr>observer = None, el = None, inView = False, loaded = False\<rparr>"

section \<open>Computed values\<close>

definition shouldAddImage :: "platform \<Rightarrow> props \<Rightarrow> state \<Rightarrow> bool" where
  "shouldAddImage rt p s =
     (if \<not> lazyLoad p then True
      else case window rt of
        None \<Rightarrow> False
      | Some w \<Rightarrow> if hasIntersectionObserver w then inView s \<or> loaded s else True)"

definition shouldShowImage :: "platform \<Rightarrow> props \<Rightarrow> state \<Rightarrow> bool" where
  "shouldShowImage rt p s =
     (if \<not> lazyLoad p then True
      else case window rt of
        None \<Rightarrow> False
      | Some w \<Rightarrow> if hasIntersectionObserver w then loaded s else True)"

text \<open>\<open>props.data.height || props.data.width / props.data.aspectRatio\<close>\<close>

definition height_value :: "props \<Rightarrow> jsnum" where
  "height_value p =
     (case height (data p) of
        Some h \<Rightarrow> if truthy_num h then h else js_div (width (data p)) (aspectRatio (data p))
      | None \<Rightarrow> js_div (width (data p)) (aspectRatio (data p)))"

definition transition :: "platform \<Rightarrow> props \<Rightarrow> jsval" where
  "transition rt p =
     (if truthy_num (fadeInDuration p)
      then Str (''opacity '' @ numberToString rt (fadeInDuration p) @ ''ms ''
                @ numberToString rt (fadeInDuration p) @ ''ms'')
      else Null)"

definition svg :: "platform \<Rightarrow> props \<Rightarrow> string" where
  "svg rt p =
     ''<svg xmlns=\"http://www.w3.org/2000/svg\" width=\"''
     @ numberToString rt (width (data p))
     @ ''\" height=\"'' @ numberToString rt (height_value p) @ ''\"></svg>''"

section \<open>The output tree\<close>

text \<open>
  \<open>h(tag, props, children)\<close> builds a node. A prop is a value, a style object, the
  template ref \<open>el\<close> or the listener \<open>load\<close>; \<open>null\<close> props are the empty map; a child
  written \<open>null\<close> is \<open>None\<close>.
\<close>

datatype attr = Val jsval | Style obj | Ref | Listener

datatype vnode =
  VNode (tag: string) (attrs: "string \<rightharpoonup> attr") (children: "vnode option list")

definition h :: "string \<Rightarrow> (string \<rightharpoonup> attr) \<Rightarrow> vnode option list \<Rightarrow> vnode" where
  "h t as cs = VNode t as cs"

definition render :: "platform \<Rightarrow> props \<Rightarrow> state \<Rightarrow> vnode" where
  "render rt p s =
     h ''div''
       [''style'' \<mapsto> Style
          ([''display'' \<mapsto> Str (if explicitWidth p then ''inline-block'' else ''block''),
            ''overflow'' \<mapsto> Str ''hidden'']
           ++ rootStyle p
           ++ [''position'' \<mapsto> Str ''relative'']),
        ''ref'' \<mapsto> Ref]
       [Some (h ''img''
          [''class'' \<mapsto> Val (of_opt_str (pictureClass p)),
           ''style'' \<mapsto> Style
             ([''display'' \<mapsto> Str ''block'',
               ''width'' \<mapsto> Str (if explicitWidth p
                                  then numberToString rt (width (data p)) @ ''px''
                                  else ''100%'')]
              ++ pictureStyle p),
           ''src'' \<mapsto> Val (Str (''data:image/svg+xml;base64,'' @ universalBtoa rt (svg rt p))),
           ''role'' \<mapsto> Val (Str ''presentation'')]
          []),
        Some (h ''div''
          [''style'' \<mapsto> Style
             ([''backgroundImage'' \<mapsto>
                 (if truthy_opt_str (base64 (data p))
                  then Str (''url('' @ the (base64 (data p)) @ '')'')
                  else Null),
               ''backgroundColor'' \<mapsto> of_opt_str (bgColor (data p)),
               ''backgroundSize'' \<mapsto> Str ''cover'',
               ''opacity'' \<mapsto> Num (Finite (if shouldShowImage rt p s then 0 else 1)),
               ''transition'' \<mapsto> transition rt p]
              ++ absolutePositioning)]
          []),
        (if shouldAddImage rt p s
         then Some (h ''picture'' Map.empty
           [(if truthy_opt_str (webpSrcSet (data p))
             then Some (h ''source''
               [''srcset'' \<mapsto> Val (of_opt_str (webpSrcSet (data p))),
                ''sizes'' \<mapsto> Val (of_opt_str (sizes (data p))),
                ''type'' \<mapsto> Val (Str ''image/webp'')]
               [])
             else None),
            (if truthy_opt_str (srcSet (data p))
             then Some (h ''source''
               [''srcset'' \<mapsto> Val (of_opt_str (srcSet (data p))),
                ''sizes'' \<mapsto> Val (of_opt_str (sizes (data p)))]
               [])
             else None),
            Some (h ''img''
              [''src'' \<mapsto> Val (Str (src (data p))),
               ''alt'' \<mapsto> Val (Str (alt (data p))),
               ''title'' \<mapsto> Val (Str (title (data p))),
               ''onLoad'' \<mapsto> Listener,
               ''class'' \<mapsto> Val (of_opt_str (pictureClass p)),
               ''style'' \<mapsto> Style
                 (absolutePositioning
                  ++ pictureStyle p
                  ++ [''opacity'' \<mapsto> Num (Finite (if shouldShowImage rt p s then 1 else 0)),
                      ''transition'' \<mapsto> transition rt p])]
              [])])
         else None),
        Some (h ''noscript'' Map.empty
          [Some (h ''picture'' Map.empty
             [(if truthy_opt_str (webpSrcSet (data p))
               then Some (h ''source''
                 [''srcset'' \<mapsto> Val (of_opt_str (webpSrcSet (data p))),
                  ''sizes'' \<mapsto> Val (of_opt_str (sizes (data p))),
                  ''type'' \<mapsto> Val (Str ''image/webp'')]
                 [])
               else None),
              (if truthy_opt_str (srcSet (data p))
               then Some (h ''source''
                 [''srcset'' \<mapsto> Val (of_opt_str (srcSet (data p))),
                  ''sizes'' \<mapsto> Val (of_opt_str (sizes (data p)))]
                 [])
               else None),
              Some (h ''img''
                [''src'' \<mapsto> Val (Str (src (data p))),
                 ''alt'' \<mapsto> Val (Str (alt (data p))),
                 ''title'' \<mapsto> Val (Str (title (data p))),
                 ''class'' \<mapsto> Val (of_opt_str (pictureClass p)),
                 ''style'' \<mapsto> Style (pictureStyle p ++ absolutePositioning),
                 ''loading'' \<mapsto> Val (Str ''lazy'')]
                [])])])]"

text \<open>Reading the tree: a node's style object, its \<open>n\<close>-th child, its \<open>source\<close> children.\<close>

definition style_of :: "vnode \<Rightarrow> obj" where
  "style_of v = (case attrs v ''style'' of Some (Style st) \<Rightarrow> st | _ \<Rightarrow> Map.empty)"

definition child :: "nat \<Rightarrow> vnode \<Rightarrow> vnode option" where
  "child n v = (if n < length (children v) then children v ! n else None)"

definition present_children :: "vnode \<Rightarrow> vnode list" where
  "present_children v = concat (map (\<lambda>c. case c of None \<Rightarrow> [] | Some x \<Rightarrow> [x]) (children v))"

definition sources_of :: "vnode \<Rightarrow> vnode list" where
  "sources_of v = filter (\<lambda>c. tag c = ''source'') (present_children v)"

text \<open>The layers of the tree that \<open>render\<close> returns, by their position in it.\<close>

definition placeholder_img :: "vnode \<Rightarrow> vnode option" where
  "placeholder_img v = child 0 v"

definition background_layer :: "vnode \<Rightarrow> vnode option" where
  "background_layer v = child 1 v"

definition real_picture :: "vnode \<Rightarrow> vnode option" where
  "real_picture v = child 2 v"

definition real_img :: "vnode \<Rightarrow> vnode option" where
  "real_img v = Option.bind (real_picture v) (child 2)"

definition noscript_picture :: "vnode \<Rightarrow> vnode option" where
  "noscript_picture v = Option.bind (child 3 v) (child 0)"

definition noscript_img :: "vnode \<Rightarrow> vnode option" where
  "noscript_img v = Option.bind (noscript_picture v) (child 2)"

text \<open>An entry of the style object of a layer; \<open>None\<close> also when the layer is absent.\<close>

fun style_at :: "vnode option \<Rightarrow> string \<Rightarrow> jsval option" where
  "style_at None k = None"
| "style_at (Some v) k = style_of v k"

text \<open>The tags of the elements inside a layer, in order.\<close>

fun tags_in :: "vnode option \<Rightarrow> string list option" where
  "tags_in None = None"
| "tags_in (Some v) = Some (map tag (present_children v))"

section \<open>Lifecycle hooks and callbacks\<close>

text \<open>
  Each hook takes the refs and returns them updated, or the error it throws. Both hooks
  read \<open>"IntersectionObserver" in window\<close> without testing \<open>typeof window\<close> first, which
  is a \<open>ReferenceError\<close> where there is no \<open>window\<close>; the observer's callback reads
  \<open>entries[0].isIntersecting\<close>, a \<open>TypeError\<close> on an empty list. Every throw comes before
  the handler's first assignment, so an error leaves the refs as they were.
\<close>

definition new_observer :: "props \<Rightarrow> intersection_observer" where
  "new_observer p =
     \<lparr>threshold = intersectionTreshold p, rootMargin = intersectionMargin p,
      targets = [], disconnectCalls = 0\<rparr>"

definition onMounted :: "platform \<Rightarrow> props \<Rightarrow> state \<Rightarrow> error + state" where
  "onMounted rt p s =
     (case window rt of
        None \<Rightarrow> Inl ReferenceError
      | Some w \<Rightarrow>
          if hasIntersectionObserver w then
            (let s1 = s\<lparr>observer := Some (new_observer p)\<rparr> in
             case el s1 of
               Some e \<Rightarrow> Inr (s1\<lparr>observer := map_option (observe e) (observer s1)\<rparr>)
             | None \<Rightarrow> Inr s1)
          else Inr s)"

definition intersection_callback :: "intersection_entry list \<Rightarrow> state \<Rightarrow> error + state" where
  "intersection_callback entries s =
     (case entries of
        [] \<Rightarrow> Inl TypeError
      | entry # _ \<Rightarrow>
          if isIntersecting entry \<and> observer s \<noteq> None
          then Inr (s\<lparr>inView := True, observer := map_option disconnect (observer s)\<rparr>)
          else Inr s)"

definition onBeforeUnmount :: "platform \<Rightarrow> state \<Rightarrow> error + state" where
  "onBeforeUnmount rt s =
     (case window rt of
        None \<Rightarrow> Inl ReferenceError
      | Some w \<Rightarrow>
          if hasIntersectionObserver w \<and> observer s \<noteq> None
          then Inr (s\<lparr>observer := map_option disconnect (observer s)\<rparr>)
          else Inr s)"

definition load :: "state \<Rightarrow> state" where
  "load s = s\<lparr>loaded := True\<rparr>"

text \<open>
  What can happen to a mounted instance. A render reads the refs and, when the framework
  patches the tree, binds the template ref \<open>el\<close> to the root element; it assigns nothing
  else.
\<close>

datatype event =
  Render | Mounted | Intersection "intersection_entry list" | Load | BeforeUnmount

fun step :: "platform \<Rightarrow> props \<Rightarrow> event \<Rightarrow> state \<Rightarrow> error + state" where
  "step rt p Render s = Inr (s\<lparr>el := Some RootElement\<rparr>)"
| "step rt p Mounted s = onMounted rt p s"
| "step rt p (Intersection entries) s = intersection_callback entries s"
| "step rt p Load s = Inr (load s)"
| "step rt p BeforeUnmount s = onBeforeUnmount rt s"

fun run :: "platform \<Rightarrow> props \<Rightarrow> event list \<Rightarrow> state \<Rightarrow> error + state" where
  "run rt p [] s = Inr s"
| "run rt p (ev # evs) s =
     (case step rt p ev s of Inl err \<Rightarrow> Inl err | Inr s' \<Rightarrow> run rt p evs s')"

text \<open>
  A visibility callback qualifies when its first entry is intersecting. An event is
  quiet when it is a render, a load, or a visibility callback that does not qualify.
\<close>

fun qualifying :: "intersection_entry list \<Rightarrow> bool" where
  "qualifying [] = False"
| "qualifying (entry # _) = isIntersecting entry"

fun quiet :: "event \<Rightarrow> bool" where
  "quiet Render = True"
| "quiet Load = True"
| "quiet (Intersection entries) = (entries \<noteq> [] \<and> \<not> qualifying entries)"
| "quiet Mounted = False"
| "quiet BeforeUnmount = False"

text \<open>How often \<open>disconnect\<close> has been called on the instance's observer.\<close>

definition disconnects :: "state \<Rightarrow> nat" where
  "disconnects s = (case observer s of None \<Rightarrow> 0 | Some ob \<Rightarrow> disconnectCalls ob)"

text \<open>
  What is read off the refs after a sequence of events on a fresh instance, or the
  error that stopped it; and the observer as \<open>onMounted\<close> leaves it when the root
  element is bound.
\<close>

definition after_events :: "(state \<Rightarrow> 'a) \<Rightarrow> platform \<Rightarrow> props \<Rightarrow> event list \<Rightarrow> error + 'a" where
  "after_events f rt p evs =
     (case run rt p evs setup_refs of Inl err \<Rightarrow> Inl err | Inr s \<Rightarrow> Inr (f s))"

definition mounted_observer :: "props \<Rightarrow> intersection_observer" where
  "mounted_observer p = observe RootElement (new_observer p)"

section \<open>The derivation rules as the specification words them\<close>

text \<open>
  The two rendering-state rules, written from the specification's table over five
  booleans: lazy loading, a window/DOM, support for \<open>IntersectionObserver\<close>, and the two
  flags. They are compared with \<open>shouldAddImage\<close> and \<open>shouldShowImage\<close> below.
\<close>

definition shouldMountRealImage :: "bool \<Rightarrow> bool \<Rightarrow> bool \<Rightarrow> bool \<Rightarrow> bool \<Rightarrow> bool" where
  "shouldMountRealImage lazy withDom withDetection intersecting isLoaded =
     (if \<not> lazy then True
      else if \<not> withDom then False
      else if withDetection then intersecting \<or> isLoaded
      else True)"

definition shouldRevealRealImage :: "bool \<Rightarrow> bool \<Rightarrow> bool \<Rightarrow> bool \<Rightarrow> bool" where
  "shouldRevealRealImage lazy withDom withDetection isLoaded =
     (if \<not> lazy then True
      else if \<not> withDom then False
      else if withDetection then isLoaded
      else True)"

text \<open>The two capabilities of the table, read off the platform.\<close>

definition hasDom :: "platform \<Rightarrow> bool" where
  "hasDom rt = (window rt \<noteq> None)"

definition hasDetection :: "platform \<Rightarrow> bool" where
  "hasDetection rt = (case window rt of None \<Rightarrow> False | Some w \<Rightarrow> hasIntersectionObserver w)"

section \<open>Example inputs\<close>

text \<open>
  A descriptor, and platforms with stand-ins for the encoders and for the number
  conversion (decimal digits for the natural numbers), used to evaluate the model.
\<close>

definition example_data :: ImageData where
  "example_data =
     \<lparr>aspectRatio = Finite 2, width = Finite 800, base64 = None, height = None,
      sizes = None, src = ''a.jpg'', srcSet = None, webpSrcSet = None, bgColor = None,
      alt = ''x'', title = ''x''\<rparr>"

fun decimal :: "nat \<Rightarrow> string" where
  "decimal n =
     (if n < 10 then [''0123456789'' ! n]
      else decimal (n div 10) @ [''0123456789'' ! (n mod 10)])"

definition example_toString :: "jsnum \<Rightarrow> string" where
  "example_toString n =
     (case n of
        Finite r \<Rightarrow> if 0 \<le> r \<and> r = of_int \<lfloor>r\<rfloor> then decimal (nat \<lfloor>r\<rfloor>) else ''?''
      | NegZero \<Rightarrow> ''0''
      | PosInfinity \<Rightarrow> ''Infinity''
      | NegInfinity \<Rightarrow> ''-Infinity''
      | NaN \<Rightarrow> ''NaN'')"

definition browser :: platform where
  "browser =
     \<lparr>window = Some \<lparr>hasIntersectionObserver = True, btoa = (\<lambda>str. str)\<rparr>,
      bufferBase64 = (\<lambda>str. str), numberToString = example_toString\<rparr>"

definition old_browser :: platform where
  "old_browser =
     \<lparr>window = Some \<lparr>hasIntersectionObserver = False, btoa = (\<lambda>str. str)\<rparr>,
      bufferBase64 = (\<lambda>str. str), numberToString = example_toString\<rparr>"

definition server :: platform where
  "server =
     \<lparr>window = None, bufferBase64 = (\<lambda>str. str), numberToString = example_toString\<rparr>"

text \<open>
  Props with caller styles on the root and on the images, on the root only and on the
  images only, and props whose fade duration is not a number.
\<close>

definition styled_props :: props where
  "styled_props =
     (default_props example_data)
       \<lparr>rootStyle := [''position'' \<mapsto> Str ''absolute'', ''display'' \<mapsto> Str ''flex''],
        pictureStyle := [''opacity'' \<mapsto> Num (Finite (1/2)), ''width'' \<mapsto> Str ''50%''],
        explicitWidth := True\<rparr>"

definition root_styled_props :: props where
  "root_styled_props =
     (default_props example_data)\<lparr>rootStyle := [''display'' \<mapsto> Str ''flex'']\<rparr>"

definition picture_styled_props :: props where
  "picture_styled_props =
     (default_props example_data)
       \<lparr>pictureStyle := [''opacity'' \<mapsto> Num (Finite (1/2)), ''width'' \<mapsto> Str ''50%'']\<rparr>"

definition nan_props :: props where
  "nan_props = (default_props example_data)\<lparr>fadeInDuration := NaN\<rparr>"

text \<open>Entries of a visibility callback: the element is in view, or is not.\<close>

definition visible :: "intersection_entry list" where
  "visible = [\<lparr>isIntersecting = True\<rparr>]"

definition hidden :: "intersection_entry list" where
  "hidden = [\<lparr>isIntersecting = False\<rparr>]"

section \<open>The structure of the output tree\<close>

lemma root_style:
  "style_of (render rt p s) =
     [''display'' \<mapsto> Str (if explicitWidth p then ''inline-block'' else ''block''),
      ''overflow'' \<mapsto> Str ''hidden'']
     ++ rootStyle p ++ [''position'' \<mapsto> Str ''relative'']"
  by (simp add: render_def h_def style_of_def)

lemma placeholder_style:
  "style_at (placeholder_img (render rt p s)) k =
     ([''display'' \<mapsto> Str ''block'',
       ''width'' \<mapsto> Str (if explicitWidth p
                          then numberToString rt (width (data p)) @ ''px''
                          else ''100%'')]
      ++ pictureStyle p) k"
  by (simp add: render_def h_def style_of_def placeholder_img_def child_def)

lemma background_style:
  "style_at (background_layer (render rt p s)) k =
     ([''backgroundImage'' \<mapsto>
         (if truthy_opt_str (base64 (data p))
          then Str (''url('' @ the (base64 (data p)) @ '')'')
          else Null),
       ''backgroundColor'' \<mapsto> of_opt_str (bgColor (data p)),
       ''backgroundSize'' \<mapsto> Str ''cover'',
       ''opacity'' \<mapsto> Num (Finite (if shouldShowImage rt p s then 0 else 1)),
       ''transition'' \<mapsto> transition rt p]
      ++ absolutePositioning) k"
  by (simp add: render_def h_def style_of_def background_layer_def child_def)

lemma real_img_style:
  "style_at (real_img (render rt p s)) k =
     (if shouldAddImage rt p s
      then (absolutePositioning ++ pictureStyle p
            ++ [''opacity'' \<mapsto> Num (Finite (if shouldShowImage rt p s then 1 else 0)),
                ''transition'' \<mapsto> transition rt p]) k
      else None)"
  by (simp add: render_def h_def style_of_def real_img_def real_picture_def child_def)

lemma noscript_img_style:
  "style_at (noscript_img (render rt p s)) k = (pictureStyle p ++ absolutePositioning) k"
  by (simp add: render_def h_def style_of_def noscript_img_def noscript_picture_def child_def)

lemma real_picture_absent:
  "(real_picture (render rt p s) = None) = (\<not> shouldAddImage rt p s)"
  by (simp add: render_def h_def real_picture_def child_def)

lemma picture_tags:
  "tags_in (real_picture (render rt p s)) =
     (if shouldAddImage rt p s
      then Some ((if truthy_opt_str (webpSrcSet (data p)) then [''source''] else [])
                 @ (if truthy_opt_str (srcSet (data p)) then [''source''] else [])
                 @ [''img''])
      else None)"
  by (simp add: render_def h_def real_picture_def child_def present_children_def)

lemma noscript_tags:
  "tags_in (noscript_picture (render rt p s)) =
     Some ((if truthy_opt_str (webpSrcSet (data p)) then [''source''] else [])
           @ (if truthy_opt_str (srcSet (data p)) then [''source''] else [])
           @ [''img''])"
  by (simp add: render_def h_def noscript_picture_def child_def present_children_def)

section \<open>Caller styles against computed defaults\<close>

text \<open>
  C1 (as amended). An entry of \<open>rootStyle\<close> replaces the computed \<open>display\<close> and
  \<open>overflow\<close> of the root container, but \<open>position\<close> is written after the spread and
  is always \<open>relative\<close>. An entry of \<open>pictureStyle\<close> replaces every computed entry of
  the placeholder img; in the real img it replaces the positioning entries, but \<open>opacity\<close>
  and \<open>transition\<close> are written after the spread and are always the computed ones. In the
  no-script img an entry of \<open>pictureStyle\<close> is kept under every name but the five
  positioning names.
\<close>

theorem style_overrides:
  "(rootStyle p k = Some v \<and> k \<noteq> ''position'' \<longrightarrow> style_of (render rt p s) k = Some v)
   \<and> style_of (render rt p s) ''position'' = Some (Str ''relative'')
   \<and> (pictureStyle p k = Some v \<longrightarrow>
         style_at (placeholder_img (render rt p s)) k = Some v)
   \<and> (pictureStyle p k = Some v \<and> shouldAddImage rt p s
        \<and> k \<noteq> ''opacity'' \<and> k \<noteq> ''transition'' \<longrightarrow>
         style_at (real_img (render rt p s)) k = Some v)
   \<and> (shouldAddImage rt p s \<longrightarrow>
         style_at (real_img (render rt p s)) ''opacity''
           = Some (Num (Finite (if shouldShowImage rt p s then 1 else 0)))
         \<and> style_at (real_img (render rt p s)) ''transition'' = Some (transition rt p))
   \<and> (pictureStyle p k = Some v
        \<and> k \<notin> {''position'', ''left'', ''top'', ''width'', ''height''} \<longrightarrow>
         style_at (noscript_img (render rt p s)) k = Some v)"
proof -
  have root: "rootStyle p k = Some v \<and> k \<noteq> ''position'' \<longrightarrow>
      style_of (render rt p s) k = Some v"
    by (simp add: root_style map_add_def)
  have pos: "style_of (render rt p s) ''position'' = Some (Str ''relative'')"
    by (simp add: root_style)
  have ph: "pictureStyle p k = Some v \<longrightarrow>
      style_at (placeholder_img (render rt p s)) k = Some v"
    by (simp add: placeholder_style map_add_def)
  have img: "pictureStyle p k = Some v \<and> shouldAddImage rt p s
        \<and> k \<noteq> ''opacity'' \<and> k \<noteq> ''transition'' \<longrightarrow>
      style_at (real_img (render rt p s)) k = Some v"
    by (simp add: real_img_style map_add_def)
  have fade: "shouldAddImage rt p s \<longrightarrow>
      style_at (real_img (render rt p s)) ''opacity''
        = Some (Num (Finite (if shouldShowImage rt p s then 1 else 0)))
      \<and> style_at (real_img (render rt p s)) ''transition'' = Some (transition rt p)"
    by (simp add: real_img_style)
  have ns: "pictureStyle p k = Some v
        \<and> k \<notin> {''position'', ''left'', ''top'', ''width'', ''height''} \<longrightarrow>
      style_at (noscript_img (render rt p s)) k = Some v"
    by (simp add: noscript_img_style map_add_def absolutePositioning_def)
  from root pos ph img fade ns show ?thesis by blast
qed

text \<open>
  The theorem at props that set \<open>display\<close> on the root and nothing on the images, and at
  props that set \<open>width\<close> and \<open>opacity\<close> on the images and nothing on the root.
\<close>

theorem style_overrides_witness:
  "style_of (render browser root_styled_props setup_refs) ''display'' = Some (Str ''flex'')
   \<and> style_of (render browser root_styled_props setup_refs) ''position''
        = Some (Str ''relative'')
   \<and> style_at (placeholder_img (render browser picture_styled_props setup_refs)) ''width''
        = Some (Str ''50%'')
   \<and> style_at (real_img (render browser picture_styled_props (load setup_refs))) ''width''
        = Some (Str ''50%'')
   \<and> style_at (real_img (render browser picture_styled_props (load setup_refs))) ''opacity''
        = Some (Num (Finite 1))
   \<and> style_at (noscript_img (render browser picture_styled_props setup_refs)) ''opacity''
        = Some (Num (Finite (1/2)))"
proof -
  have r: "rootStyle root_styled_props ''display'' = Some (Str ''flex'')"
    by (simp add: root_styled_props_def)
  have q: "pictureStyle picture_styled_props ''width'' = Some (Str ''50%'')"
    by (simp add: picture_styled_props_def)
  have q': "pictureStyle picture_styled_props ''opacity'' = Some (Num (Finite (1/2)))"
    by (simp add: picture_styled_props_def)
  have a: "shouldAddImage browser picture_styled_props (load setup_refs)"
    by (simp add: shouldAddImage_def browser_def load_def)
  have b: "shouldShowImage browser picture_styled_props (load setup_refs)"
    by (simp add: shouldShowImage_def browser_def load_def)
  from style_overrides [where p = root_styled_props and k = "''display''"
         and v = "Str ''flex''" and rt = browser and s = setup_refs] r
  have 1: "style_of (render browser root_styled_props setup_refs) ''display''
             = Some (Str ''flex'')"
    and 2: "style_of (render browser root_styled_props setup_refs) ''position''
             = Some (Str ''relative'')"
    by simp_all
  from style_overrides [where p = picture_styled_props and k = "''width''"
         and v = "Str ''50%''" and rt = browser and s = setup_refs] q
  have 3: "style_at (placeholder_img (render browser picture_styled_props setup_refs)) ''width''
             = Some (Str ''50%'')"
    by simp
  from style_overrides [where p = picture_styled_props and k = "''width''"
         and v = "Str ''50%''" and rt = browser and s = "load setup_refs"] q a b
  have 4: "style_at (real_img (render browser picture_styled_props (load setup_refs))) ''width''
             = Some (Str ''50%'')"
    and 5: "style_at (real_img (render browser picture_styled_props (load setup_refs)))
              ''opacity'' = Some (Num (Finite 1))"
    by simp_all
  from style_overrides [where p = picture_styled_props and k = "''opacity''"
         and v = "Num (Finite (1/2))" and rt = browser and s = setup_refs] q'
  have 6: "style_at (noscript_img (render browser picture_styled_props setup_refs)) ''opacity''
             = Some (Num (Finite (1/2)))"
    by simp
  from 1 2 3 4 5 6 show ?thesis by simp
qed

text \<open>
  C1 as stated fails: a caller's \<open>position\<close> on the root and a caller's \<open>opacity\<close> on
  the real img do not reach the merged style.
\<close>

theorem style_overrides_counterexample:
  "rootStyle styled_props ''position'' = Some (Str ''absolute'')
   \<and> style_of (render browser styled_props setup_refs) ''position'' = Some (Str ''relative'')
   \<and> pictureStyle styled_props ''opacity'' = Some (Num (Finite (1/2)))
   \<and> style_at (real_img (render browser styled_props (load setup_refs))) ''opacity''
        = Some (Num (Finite 1))"
  by (simp add: styled_props_def default_props_def real_img_style root_style
      shouldAddImage_def shouldShowImage_def browser_def load_def setup_refs_def)

section \<open>The rendering-state rules\<close>

text \<open>
  C2. \<open>shouldAddImage\<close> is the specification's rule for mounting the real image: true
  without lazy loading; else false without a window; else \<open>inView \<or> loaded\<close> where
  \<open>IntersectionObserver\<close> is supported; else true. The \<open>picture\<close> element is absent from
  the output tree exactly when it is false.
\<close>

theorem shouldAddImage_rule:
  "shouldAddImage rt p s
     = shouldMountRealImage (lazyLoad p) (hasDom rt) (hasDetection rt) (inView s) (loaded s)
   \<and> (real_picture (render rt p s) = None) = (\<not> shouldAddImage rt p s)"
proof
  show "shouldAddImage rt p s
     = shouldMountRealImage (lazyLoad p) (hasDom rt) (hasDetection rt) (inView s) (loaded s)"
    by (simp add: shouldAddImage_def shouldMountRealImage_def
      hasDom_def hasDetection_def split: option.split)
  show "(real_picture (render rt p s) = None) = (\<not> shouldAddImage rt p s)"
    by (rule real_picture_absent)
qed

text \<open>The rule in a browser, an old browser and on a server.\<close>

theorem shouldAddImage_rule_witness:
  "\<not> shouldAddImage browser (default_props example_data) setup_refs
   \<and> real_picture (render browser (default_props example_data) setup_refs) = None
   \<and> shouldAddImage browser (default_props example_data) (setup_refs\<lparr>inView := True\<rparr>)
   \<and> shouldAddImage old_browser (default_props example_data) setup_refs
   \<and> \<not> shouldAddImage server (default_props example_data) (setup_refs\<lparr>inView := True\<rparr>)
   \<and> shouldAddImage server ((default_props example_data)\<lparr>lazyLoad := False\<rparr>) setup_refs"
  using shouldAddImage_rule [of browser "default_props example_data" setup_refs]
    shouldAddImage_rule [of browser "default_props example_data" "setup_refs\<lparr>inView := True\<rparr>"]
    shouldAddImage_rule [of old_browser "default_props example_data" setup_refs]
    shouldAddImage_rule [of server "default_props example_data" "setup_refs\<lparr>inView := True\<rparr>"]
    shouldAddImage_rule [of server "(default_props example_data)\<lparr>lazyLoad := False\<rparr>" setup_refs]
  by (simp add: shouldMountRealImage_def hasDom_def hasDetection_def browser_def
      old_browser_def server_def default_props_def setup_refs_def)

text \<open>
  C3. \<open>shouldShowImage\<close> is the specification's rule for revealing the real image: true
  without lazy loading; else false without a window; else \<open>loaded\<close> where
  \<open>IntersectionObserver\<close> is supported; else true. The background layer's opacity is 0
  when it is true and 1 when it is false, and the opacity of the real img, where it is
  mounted, is the complement.
\<close>

theorem shouldShowImage_rule:
  "shouldShowImage rt p s
     = shouldRevealRealImage (lazyLoad p) (hasDom rt) (hasDetection rt) (loaded s)
   \<and> style_at (background_layer (render rt p s)) ''opacity''
       = Some (Num (Finite (if shouldShowImage rt p s then 0 else 1)))
   \<and> style_at (real_img (render rt p s)) ''opacity''
       = (if shouldAddImage rt p s
          then Some (Num (Finite (if shouldShowImage rt p s then 1 else 0)))
          else None)"
  by (simp add: background_style real_img_style absolutePositioning_def
      shouldShowImage_def shouldRevealRealImage_def
      hasDom_def hasDetection_def split: option.split)

text \<open>The rule and both opacities, before and after the image has loaded.\<close>

theorem shouldShowImage_rule_witness:
  "\<not> shouldShowImage browser (default_props example_data) (setup_refs\<lparr>inView := True\<rparr>)
   \<and> style_at (background_layer
        (render browser (default_props example_data) (setup_refs\<lparr>inView := True\<rparr>))) ''opacity''
       = Some (Num (Finite 1))
   \<and> style_at (real_img
        (render browser (default_props example_data) (setup_refs\<lparr>inView := True\<rparr>))) ''opacity''
       = Some (Num (Finite 0))
   \<and> shouldShowImage browser (default_props example_data) (load setup_refs)
   \<and> style_at (background_layer
        (render browser (default_props example_data) (load setup_refs))) ''opacity''
       = Some (Num (Finite 0))
   \<and> style_at (real_img
        (render browser (default_props example_data) (load setup_refs))) ''opacity''
       = Some (Num (Finite 1))"
  using shouldShowImage_rule [of browser "default_props example_data" "setup_refs\<lparr>inView := True\<rparr>"]
    shouldShowImage_rule [of browser "default_props example_data" "load setup_refs"]
  by (simp add: shouldRevealRealImage_def shouldAddImage_def hasDom_def hasDetection_def
      browser_def default_props_def setup_refs_def load_def)

section \<open>The placeholder\<close>



section \<open>The transition\<close>

text \<open>
  C7 (as amended). When \<open>fadeInDuration\<close> is 0 (\<open>+0\<close> or \<open>-0\<close>) or \<open>NaN\<close> the
  transition is \<open>null\<close>;
  otherwise it is the string \<open>opacity <d>ms <d>ms\<close> for the duration \<open>d\<close>. That value
  is the \<open>transition\<close> entry of the merged style of the background layer and of the
  real img, where the real img is mounted.
\<close>

theorem transition_rule:
  "transition rt p =
     (if fadeInDuration p = Finite 0 \<or> fadeInDuration p = NegZero \<or> fadeInDuration p = NaN
      then Null
      else Str (''opacity '' @ numberToString rt (fadeInDuration p) @ ''ms ''
                @ numberToString rt (fadeInDuration p) @ ''ms''))
   \<and> style_at (background_layer (render rt p s)) ''transition'' = Some (transition rt p)
   \<and> style_at (real_img (render rt p s)) ''transition''
       = (if shouldAddImage rt p s then Some (transition rt p) else None)"
proof -
  have "transition rt p =
     (if fadeInDuration p = Finite 0 \<or> fadeInDuration p = NegZero \<or> fadeInDuration p = NaN
      then Null
      else Str (''opacity '' @ numberToString rt (fadeInDuration p) @ ''ms ''
                @ numberToString rt (fadeInDuration p) @ ''ms''))"
    by (cases "fadeInDuration p") (simp_all add: transition_def)
  moreover have "style_at (background_layer (render rt p s)) ''transition''
      = Some (transition rt p)"
    by (simp add: background_style absolutePositioning_def)
  moreover have "style_at (real_img (render rt p s)) ''transition''
       = (if shouldAddImage rt p s then Some (transition rt p) else None)"
    by (simp add: real_img_style)
  ultimately show ?thesis by simp
qed

text \<open>The default duration of 500, and the duration 0.\<close>

theorem transition_rule_witness:
  "transition browser (default_props example_data) = Str ''opacity 500ms 500ms''
   \<and> transition browser ((default_props example_data)\<lparr>fadeInDuration := Finite 0\<rparr>) = Null
   \<and> style_at (background_layer (render browser (default_props example_data) setup_refs))
        ''transition'' = Some (Str ''opacity 500ms 500ms'')"
  using transition_rule [of browser "default_props example_data" setup_refs]
    transition_rule [of browser "(default_props example_data)\<lparr>fadeInDuration := Finite 0\<rparr>" setup_refs]
  by (simp add: default_props_def browser_def example_toString_def)

text \<open>
  C7 as stated fails: \<open>NaN\<close> is not 0, and the test \<open>props.fadeInDuration ? \<dots>\<close> takes
  it for false, so there is no transition string.
\<close>

theorem transition_rule_counterexample:
  "fadeInDuration nan_props \<noteq> Finite 0
   \<and> transition browser nan_props = Null
   \<and> transition browser nan_props \<noteq> Str ''opacity NaNms NaNms''
   \<and> style_at (background_layer (render browser nan_props setup_refs)) ''transition''
        = Some Null"
  by (simp add: nan_props_def transition_def background_style absolutePositioning_def)

section \<open>Explicit width\<close>

text \<open>
  C8 (as amended). Unless \<open>rootStyle\<close> has a \<open>display\<close> entry, the container's display is
  \<open>inline-block\<close> when \<open>explicitWidth\<close> is set and \<open>block\<close> when it is not; unless
  \<open>pictureStyle\<close> has a \<open>width\<close> entry, the placeholder's width is the descriptor's
  width followed by \<open>px\<close> when \<open>explicitWidth\<close> is set and \<open>100%\<close> when it is not. A
  caller's entry of that name takes the place of the computed one.
\<close>

theorem explicit_width:
  "style_of (render rt p s) ''display'' =
     (case rootStyle p ''display'' of
        Some v \<Rightarrow> Some v
      | None \<Rightarrow> Some (Str (if explicitWidth p then ''inline-block'' else ''block'')))
   \<and> style_at (placeholder_img (render rt p s)) ''width'' =
     (case pictureStyle p ''width'' of
        Some v \<Rightarrow> Some v
      | None \<Rightarrow> Some (Str (if explicitWidth p
                           then numberToString rt (width (data p)) @ ''px''
                           else ''100%'')))"
proof
  show "style_of (render rt p s) ''display'' =
     (case rootStyle p ''display'' of
        Some v \<Rightarrow> Some v
      | None \<Rightarrow> Some (Str (if explicitWidth p then ''inline-block'' else ''block'')))"
    by (simp add: root_style map_add_def split: option.split)
  show "style_at (placeholder_img (render rt p s)) ''width'' =
     (case pictureStyle p ''width'' of
        Some v \<Rightarrow> Some v
      | None \<Rightarrow> Some (Str (if explicitWidth p
                           then numberToString rt (width (data p)) @ ''px''
                           else ''100%'')))"
    by (simp add: placeholder_style map_add_def split: option.split)
qed

text \<open>The default styles, with and without \<open>explicitWidth\<close>.\<close>

theorem explicit_width_witness:
  "style_of (render browser ((default_props example_data)\<lparr>explicitWidth := True\<rparr>) setup_refs)
      ''display'' = Some (Str ''inline-block'')
   \<and> style_at (placeholder_img
        (render browser ((default_props example_data)\<lparr>explicitWidth := True\<rparr>) setup_refs))
      ''width'' = Some (Str ''800px'')
   \<and> style_of (render browser (default_props example_data) setup_refs) ''display''
       = Some (Str ''block'')
   \<and> style_at (placeholder_img (render browser (default_props example_data) setup_refs))
      ''width'' = Some (Str ''100%'')"
  using explicit_width [of browser "(default_props example_data)\<lparr>explicitWidth := True\<rparr>" setup_refs]
    explicit_width [of browser "default_props example_data" setup_refs]
  by (simp add: default_props_def browser_def example_toString_def example_data_def)

text \<open>
  C8 as stated fails: with \<open>explicitWidth\<close> set, a caller's \<open>display\<close> and \<open>width\<close> are
  rendered, not \<open>inline-block\<close> and \<open>800px\<close>.
\<close>

theorem explicit_width_counterexample:
  "explicitWidth styled_props
   \<and> style_of (render browser styled_props setup_refs) ''display'' = Some (Str ''flex'')
   \<and> style_at (placeholder_img (render browser styled_props setup_refs)) ''width''
       = Some (Str ''50%'')"
  by (simp add: styled_props_def root_style placeholder_style)

section \<open>A descriptor without source sets\<close>

text \<open>
  C9. The example descriptor, 800 wide with the aspect ratio 2, has the placeholder
  height 400 under the default props. For every descriptor with neither \<open>srcSet\<close> nor
  \<open>webpSrcSet\<close>, the no-script \<open>picture\<close> and the scripted \<open>picture\<close>, where it is
  mounted, have the fallback \<open>img\<close> as their only element and no \<open>source\<close>.
\<close>

theorem no_sources:
  assumes "srcSet (data p) = None" and "webpSrcSet (data p) = None"
  shows "height_value (default_props example_data) = Finite 400
    \<and> tags_in (noscript_picture (render rt p s)) = Some [''img'']
    \<and> tags_in (real_picture (render rt p s))
        = (if shouldAddImage rt p s then Some [''img''] else None)
    \<and> map_option sources_of (noscript_picture (render rt p s)) = Some []
    \<and> map_option sources_of (real_picture (render rt p s))
        = (if shouldAddImage rt p s then Some [] else None)"
proof -
  have "js_div (Finite 800) (Finite 2) = Finite 400"
    by code_simp
  then have "height_value (default_props example_data) = Finite 400"
    by (simp add: height_value_def default_props_def example_data_def)
  moreover have "tags_in (noscript_picture (render rt p s)) = Some [''img'']"
    using assms by (simp add: noscript_tags)
  moreover have "tags_in (real_picture (render rt p s))
        = (if shouldAddImage rt p s then Some [''img''] else None)"
    using assms by (simp add: picture_tags)
  moreover have "map_option sources_of (noscript_picture (render rt p s)) = Some []"
    using assms
    by (simp add: render_def h_def noscript_picture_def child_def sources_of_def
        present_children_def)
  moreover have "map_option sources_of (real_picture (render rt p s))
        = (if shouldAddImage rt p s then Some [] else None)"
    using assms
    by (simp add: render_def h_def real_picture_def child_def sources_of_def
        present_children_def)
  ultimately show ?thesis by simp
qed

text \<open>The example descriptor, in a browser and where the picture is mounted at once.\<close>

theorem no_sources_witness:
  "tags_in (noscript_picture (render browser (default_props example_data) setup_refs))
     = Some [''img'']
   \<and> tags_in (real_picture (render old_browser (default_props example_data) setup_refs))
     = Some [''img'']
   \<and> map_option sources_of
        (real_picture (render old_browser (default_props example_data) setup_refs)) = Some []"
proof -
  have a: "srcSet (data (default_props example_data)) = None"
    by (simp add: default_props_def example_data_def)
  have b: "webpSrcSet (data (default_props example_data)) = None"
    by (simp add: default_props_def example_data_def)
  have c: "shouldAddImage old_browser (default_props example_data) setup_refs"
    by (simp add: shouldAddImage_def old_browser_def)
  from no_sources [OF a b, of browser setup_refs] no_sources [OF a b, of old_browser setup_refs] c
  show ?thesis by simp
qed

section \<open>The lifecycle\<close>

lemma step_flags:
  assumes "step rt p ev s = Inr s'"
  shows "(inView s \<longrightarrow> inView s') \<and> (loaded s \<longrightarrow> loaded s')"
proof (cases ev)
  case Render
  with assms show ?thesis by auto
next
  case Mounted
  with assms show ?thesis
    by (auto simp: onMounted_def Let_def split: option.splits if_splits)
next
  case (Intersection entries)
  with assms show ?thesis
    by (auto simp: intersection_callback_def split: list.splits if_splits)
next
  case Load
  with assms show ?thesis by (auto simp: load_def)
next
  case BeforeUnmount
  with assms show ?thesis
    by (auto simp: onBeforeUnmount_def split: option.splits if_splits)
qed

lemma run_flags:
  "run rt p evs s = Inr s' \<Longrightarrow> (inView s \<longrightarrow> inView s') \<and> (loaded s \<longrightarrow> loaded s')"
proof (induction evs arbitrary: s)
  case Nil
  then show ?case by simp
next
  case (Cons ev evs)
  from Cons.prems obtain s1 where 1: "step rt p ev s = Inr s1" and 2: "run rt p evs s1 = Inr s'"
    by (auto split: sum.splits)
  from step_flags [OF 1] Cons.IH [OF 2] show ?case by blast
qed

lemma run_append:
  "run rt p (xs @ ys) s =
     (case run rt p xs s of Inl err \<Rightarrow> Inl err | Inr s' \<Rightarrow> run rt p ys s')"
  by (induction xs arbitrary: s) (auto split: sum.splits)

lemma quiet_step:
  assumes "quiet ev"
  shows "\<exists>s'. step rt p ev s = Inr s' \<and> observer s' = observer s \<and> inView s' = inView s"
proof (cases ev)
  case (Intersection entries)
  with assms obtain entry rest where "entries = entry # rest" and "\<not> isIntersecting entry"
    by (cases entries) auto
  with Intersection show ?thesis by (simp add: intersection_callback_def)
qed (use assms in \<open>auto simp: load_def\<close>)

lemma quiet_run:
  "list_all quiet evs \<Longrightarrow>
     \<exists>s'. run rt p evs s = Inr s' \<and> observer s' = observer s \<and> inView s' = inView s"
proof (induction evs arbitrary: s)
  case Nil
  then show ?case by simp
next
  case (Cons ev evs)
  then have "quiet ev" and rest: "list_all quiet evs" by simp_all
  from quiet_step [OF this(1), of rt p s] obtain s1
    where 1: "step rt p ev s = Inr s1" "observer s1 = observer s" "inView s1 = inView s"
    by blast
  from Cons.IH [OF rest, of s1] obtain s'
    where 2: "run rt p evs s1 = Inr s'" "observer s' = observer s1" "inView s' = inView s1"
    by blast
  from 1 2 show ?case by simp
qed

lemma mounted_run:
  assumes "hasDetection rt" and "list_all quiet evs"
  shows "\<exists>s1. run rt p (Render # Mounted # evs) setup_refs = Inr s1
           \<and> observer s1 = Some (mounted_observer p) \<and> \<not> inView s1"
proof -
  from assms(1) obtain w where w: "window rt = Some w" "hasIntersectionObserver w"
    by (auto simp: hasDetection_def split: option.splits)
  let ?s0 = "\<lparr>observer = Some (mounted_observer p), el = Some RootElement,
              inView = False, loaded = False\<rparr>"
  have "run rt p (Render # Mounted # evs) setup_refs = run rt p evs ?s0"
    using w by (simp add: onMounted_def setup_refs_def mounted_observer_def)
  with quiet_run [OF assms(2), of rt p ?s0] show ?thesis by auto
qed

lemma callback_qualifying:
  assumes "qualifying entries" and "observer s = Some ob"
  shows "intersection_callback entries s
           = Inr (s\<lparr>inView := True, observer := Some (disconnect ob)\<rparr>)"
  using assms by (cases entries) (auto simp: intersection_callback_def)

lemma unmount_observer:
  assumes "hasDetection rt" and "observer s = Some ob"
  shows "onBeforeUnmount rt s = Inr (s\<lparr>observer := Some (disconnect ob)\<rparr>)"
  using assms by (auto simp: onBeforeUnmount_def hasDetection_def split: option.splits)

lemma mounted_calls: "disconnectCalls (mounted_observer p) = 0"
  by (simp add: mounted_observer_def observe_def new_observer_def)

text \<open>
  C4. Both flags are false when the instance is set up. Every event that returns (a
  render, the mounted hook, a visibility callback, a load, the unmount hook) keeps a
  flag that is true, and so does every sequence of events: a flag is unchanged or
  goes from false to true, never from true to false.
\<close>

theorem flags_monotonic:
  "\<not> inView setup_refs \<and> \<not> loaded setup_refs
   \<and> (\<forall>ev s s'. step rt p ev s = Inr s' \<longrightarrow>
         (inView s \<longrightarrow> inView s') \<and> (loaded s \<longrightarrow> loaded s'))
   \<and> (\<forall>evs s s'. run rt p evs s = Inr s' \<longrightarrow>
         (inView s \<longrightarrow> inView s') \<and> (loaded s \<longrightarrow> loaded s'))"
proof -
  have "\<not> inView setup_refs \<and> \<not> loaded setup_refs"
    by (simp add: setup_refs_def)
  moreover have "\<forall>ev s s'. step rt p ev s = Inr s' \<longrightarrow>
         (inView s \<longrightarrow> inView s') \<and> (loaded s \<longrightarrow> loaded s')"
    using step_flags by blast
  moreover have "\<forall>evs s s'. run rt p evs s = Inr s' \<longrightarrow>
         (inView s \<longrightarrow> inView s') \<and> (loaded s \<longrightarrow> loaded s')"
    using run_flags by blast
  ultimately show ?thesis by blast
qed

text \<open>A load sets \<open>loaded\<close>, and it stays set through mount, callback and unmount.\<close>

theorem flags_monotonic_witness:
  "step browser (default_props example_data) Load setup_refs = Inr (load setup_refs)
   \<and> \<not> loaded setup_refs \<and> loaded (load setup_refs)
   \<and> run browser (default_props example_data)
        [Render, Mounted, Intersection hidden, BeforeUnmount] (load setup_refs)
       = Inr \<lparr>observer = Some \<lparr>threshold = Finite 0, rootMargin = ''0px 0px 0px 0px'',
                               targets = [], disconnectCalls = 1\<rparr>,
              el = Some RootElement, inView = False, loaded = True\<rparr>"
proof -
  let ?p = "default_props example_data"
  let ?s = "\<lparr>observer = Some \<lparr>threshold = Finite 0, rootMargin = ''0px 0px 0px 0px'',
                               targets = [], disconnectCalls = 1\<rparr>,
              el = Some RootElement, inView = False, loaded = True\<rparr>"
  have a: "step browser ?p Load setup_refs = Inr (load setup_refs)"
    by simp
  have b: "run browser ?p [Render, Mounted, Intersection hidden, BeforeUnmount] (load setup_refs)
             = Inr ?s"
    by (simp add: onMounted_def onBeforeUnmount_def intersection_callback_def browser_def
        hidden_def load_def setup_refs_def new_observer_def observe_def disconnect_def
        default_props_def)
  from flags_monotonic [of browser ?p] a b
  have "\<not> loaded setup_refs" and "loaded (load setup_refs) \<longrightarrow> loaded ?s"
    by blast+
  with a b show ?thesis by (simp add: load_def)
qed



text \<open>
  C10. Where \<open>IntersectionObserver\<close> is supported, after a qualifying visibility
  callback the observer ref is still set and \<open>disconnect\<close> has been called once;
  whatever quiet events follow, the unmount hook passes its guard and calls
  \<open>disconnect\<close> a second time.
\<close>

theorem disconnect_twice:
  assumes "hasDetection rt" and "list_all quiet evs" and "qualifying entries"
    and "list_all quiet evs'"
  shows "after_events disconnects rt p (Render # Mounted # evs @ Intersection entries # evs')
           = Inr 1
    \<and> after_events (\<lambda>s. observer s = None) rt p
          (Render # Mounted # evs @ Intersection entries # evs') = Inr False
    \<and> after_events disconnects rt p
          (Render # Mounted # evs @ Intersection entries # evs' @ [BeforeUnmount]) = Inr 2"
proof -
  from mounted_run [OF assms(1,2), of p] obtain s1
    where s1: "run rt p (Render # Mounted # evs) setup_refs = Inr s1"
      "observer s1 = Some (mounted_observer p)"
    by blast
  let ?s2 = "s1\<lparr>inView := True, observer := Some (disconnect (mounted_observer p))\<rparr>"
  from quiet_run [OF assms(4), of rt p ?s2] obtain s3
    where s3: "run rt p evs' ?s2 = Inr s3" "observer s3 = Some (disconnect (mounted_observer p))"
    by auto
  have r: "run rt p (Render # Mounted # evs @ Intersection entries # more) setup_refs
             = run rt p more ?s2" for more
    using s1(1) run_append [of rt p "Render # Mounted # evs" "Intersection entries # more" setup_refs]
      callback_qualifying [OF assms(3) s1(2)]
    by simp
  have a: "run rt p (Render # Mounted # evs @ Intersection entries # evs') setup_refs = Inr s3"
    using r [of evs'] s3(1) by simp
  have b: "run rt p (Render # Mounted # evs @ Intersection entries # evs' @ [BeforeUnmount])
             setup_refs
           = Inr (s3\<lparr>observer := Some (disconnect (disconnect (mounted_observer p)))\<rparr>)"
    using r [of "evs' @ [BeforeUnmount]"] s3(1) run_append [of rt p evs' "[BeforeUnmount]" ?s2]
      unmount_observer [OF assms(1) s3(2)]
    by simp
  show ?thesis
    using a b s3(2)
    by (simp add: after_events_def disconnects_def disconnect_def mounted_calls)
qed

text \<open>A browser instance that comes into view, loads and is unmounted.\<close>

theorem disconnect_twice_witness:
  "after_events disconnects browser (default_props example_data)
      [Render, Mounted, Intersection hidden, Intersection visible, Load, Render] = Inr 1
   \<and> after_events disconnects browser (default_props example_data)
      [Render, Mounted, Intersection hidden, Intersection visible, Load, Render, BeforeUnmount]
      = Inr 2"
proof -
  have a: "hasDetection browser"
    by (simp add: hasDetection_def browser_def)
  have b: "list_all quiet [Intersection hidden]"
    by (simp add: hidden_def)
  have c: "qualifying visible"
    by (simp add: visible_def)
  have d: "list_all quiet [Load, Render]"
    by simp
  from disconnect_twice [OF a b c d, of "default_props example_data"] show ?thesis
    by simp
qed

end
